theory Spec2Isabelle
  imports Complex_Main
begin

section \<open>Python values, errors and pandas data\<close>

text \<open>
  The methods of \<open>CausalImpact\<close> in \<open>causalimpact/main.py\<close> take dynamically typed
  arguments. The values they inspect are modelled by \<open>pyval\<close>. A float is the real
  number it denotes, or an infinity, or NaN; comparison of floats is exact, so it is
  comparison of the denoted reals, and every comparison with NaN is false.
\<close>

datatype pyfloat = Fin real | PInf | NInf | NaN

datatype pyval =
    PyNone
  | PyBool bool
  | PyInt int
  | PyFloat pyfloat
  | PyStr string
  | PyList "pyval list"

text \<open>
  Every failure of the source is an exception; the model returns it as a value. The
  payload is the message of the source (for \<open>NameError\<close> and \<open>AttributeError\<close> the
  name that is not defined).
\<close>

datatype error =
    ValueError string
  | TypeError string
  | NameError string
  | AttributeError string
  | IndexingError string
  | InvalidIndexError string

fun float_lt :: "pyfloat \<Rightarrow> pyfloat \<Rightarrow> bool" where
  "float_lt NaN _ = False"
| "float_lt _ NaN = False"
| "float_lt (Fin x) (Fin y) = (x < y)"
| "float_lt NInf NInf = False"
| "float_lt NInf _ = True"
| "float_lt _ NInf = False"
| "float_lt PInf _ = False"
| "float_lt _ PInf = True"

text \<open>Python's truth value of an object, as \<open>if d\<close> and \<open>not x\<close> test it.\<close>

fun truthy :: "pyval \<Rightarrow> bool" where
  "truthy PyNone = False"
| "truthy (PyBool b) = b"
| "truthy (PyInt i) = (i \<noteq> 0)"
| "truthy (PyFloat x) = (x \<noteq> Fin 0)"
| "truthy (PyStr s) = (s \<noteq> [])"
| "truthy (PyList xs) = (xs \<noteq> [])"

text \<open>\<open>isinstance(v, int)\<close> (\<open>bool\<close> is a subclass of \<open>int\<close>), \<open>isinstance(v, str)\<close> and
  \<open>isinstance(v, float)\<close>.\<close>

fun is_int :: "pyval \<Rightarrow> bool" where
  "is_int (PyInt _) = True"
| "is_int (PyBool _) = True"
| "is_int _ = False"

fun is_str :: "pyval \<Rightarrow> bool" where
  "is_str (PyStr _) = True"
| "is_str _ = False"

fun is_float :: "pyval \<Rightarrow> bool" where
  "is_float (PyFloat _) = True"
| "is_float _ = False"

text \<open>The integer an \<open>int\<close> instance stands for in arithmetic (\<open>True\<close> is 1).\<close>

fun int_of :: "pyval \<Rightarrow> int option" where
  "int_of (PyInt i) = Some i"
| "int_of (PyBool b) = Some (if b then 1 else 0)"
| "int_of _ = None"

text \<open>The name of the type of a value, as Python's error messages print it, and a text
  between single quotes.\<close>

fun type_name :: "pyval \<Rightarrow> string" where
  "type_name PyNone = ''NoneType''"
| "type_name (PyBool _) = ''bool''"
| "type_name (PyInt _) = ''int''"
| "type_name (PyFloat _) = ''float''"
| "type_name (PyStr _) = ''str''"
| "type_name (PyList _) = ''list''"

definition quoted :: "string \<Rightarrow> string" where
  "quoted s = CHR 0x27 # s @ [CHR 0x27]"

text \<open>
  The names that \<open>main.py\<close> binds at module level: its imports and its two classes.
  Reading a name that is neither local nor bound there nor built in raises
  \<open>NameError\<close>.
\<close>

definition module_globals :: "string list" where
  "module_globals =
     [''np'', ''pd'', ''DatetimeIndex'', ''Inferences'', ''standardize'', ''BaseCausal'',
      ''CausalImpact'']"

definition lookup_global :: "string \<Rightarrow> error + unit" where
  "lookup_global name = (if name \<in> set module_globals then Inr () else Inl (NameError name))"

text \<open>
  The index of a data frame: a \<open>RangeIndex\<close> of a given length, or a
  \<open>DatetimeIndex\<close> whose entries are written as their date labels.
\<close>

datatype pd_index = RangeIndex nat | DatetimeIndex "string list"

fun is_datetime_index :: "pd_index \<Rightarrow> bool" where
  "is_datetime_index (DatetimeIndex _) = True"
| "is_datetime_index (RangeIndex _) = False"

text \<open>
  A cell of a data frame is a number, a missing value (NaN) or a non-numeric object.
  \<open>np.isreal\<close> holds of numbers and of NaN, \<open>isna\<close> of NaN only. A frame has its
  index, its number of columns (\<open>shape[1]\<close>) and its rows (\<open>shape[0]\<close> of them).
\<close>

datatype cell = Num real | Missing | Text string

fun isreal :: "cell \<Rightarrow> bool" where
  "isreal (Text _) = False"
| "isreal _ = True"

fun isna :: "cell \<Rightarrow> bool" where
  "isna Missing = True"
| "isna _ = False"

record dataframe =
  df_index :: pd_index
  df_ncols :: nat
  df_rows :: "cell list list"

text \<open>
  The \<open>data\<close> argument: \<open>None\<close>, a \<open>DataFrame\<close>, or another object, for which
  \<open>pd.DataFrame(data)\<close> either builds the given frame or raises \<open>ValueError\<close> with the
  given text. \<open>pd.DataFrame(None)\<close> is the empty frame.
\<close>

datatype data_arg =
    DataNone
  | Frame dataframe
  | Coercible dataframe
  | Uncoercible string

definition empty_frame :: dataframe where
  "empty_frame = \<lparr>df_index = RangeIndex 0, df_ncols = 0, df_rows = []\<rparr>"

section \<open>Significance level\<close>

text \<open>\<open>_process_alpha\<close> (lines 262--284). It has no \<open>return\<close>: it yields \<open>None\<close>.\<close>

definition process_alpha :: "pyval \<Rightarrow> error + pyval" where
  "process_alpha alpha =
     (case alpha of
        PyFloat x \<Rightarrow>
          if float_lt x (Fin 0) \<or> float_lt (Fin 1) x
          then Inl (ValueError ''``alpha`` must range between 0 (zero) and 1 (one) inclusive.'')
          else Inr PyNone
      | _ \<Rightarrow> Inl (ValueError ''``alpha`` must be of type `float`.''))"

section \<open>Periods\<close>

text \<open>
  \<open>_convert_str_period_to_int\<close> (lines 473--499): the loop over the labels, stopping at
  the first label for which \<open>data.index.get_loc\<close> raises \<open>KeyError\<close>. The lookup
  belongs to pandas (it parses the label as a date, and what it returns for a label need
  not be one integer), so it is a parameter: \<open>get_loc date\<close> is \<open>None\<close> where pandas
  raises \<open>KeyError\<close>, and otherwise the value returned.
\<close>

fun convert_str_period_to_int :: "string list \<Rightarrow> (string \<Rightarrow> 'o option) \<Rightarrow> error + 'o list" where
  "convert_str_period_to_int [] get_loc = Inr []"
| "convert_str_period_to_int (date # rest) get_loc =
     (case get_loc date of
        None \<Rightarrow> Inl (ValueError (date @ '' is not preset in data index''))
      | Some offset \<Rightarrow>
          (case convert_str_period_to_int rest get_loc of
             Inl e \<Rightarrow> Inl e
           | Inr result \<Rightarrow> Inr (offset # result)))"

text \<open>
  \<open>_process_period\<close> (lines 444--471), check by check.
  \<^item> \<open>none_args = [d for d in period if d]\<close> collects the elements that are true.
  \<^item> The kind test reads \<open>period[1]\<close> in both halves of its second disjunct.
  \<^item> In the string branch the call passes \<open>data\<close>, which is neither a parameter nor a
    local nor a global of the module, so evaluating the argument raises \<open>NameError\<close>
    before \<open>_convert_str_period_to_int\<close> is entered.
  \<^item> \<open>period[1] - period[0]\<close> is reached only when \<open>period[0]\<close> is not a string and
    the kind test passed: either both are \<open>int\<close> instances, or \<open>period[1]\<close> is a
    string, and a string has no subtraction (\<open>TypeError\<close>, whose message names the
    types of the left and of the right operand).
  The list that is returned holds the two integer offsets; the model returns them as a
  pair.
\<close>

definition process_period :: "pyval \<Rightarrow> pd_index \<Rightarrow> error + int \<times> int" where
  "process_period period data_index =
     (case period of
        PyList ps \<Rightarrow>
          if length ps \<noteq> 2 then
            Inl (ValueError ''``period`` must have two values regarding the beginning and end of the pre and post intervention data'')
          else if filter truthy ps \<noteq> [] then
            Inl (ValueError ''Input period cannot have `None` values'')
          else if \<not> ((is_int (ps ! 0) \<and> is_int (ps ! 1)) \<or> (is_str (ps ! 1) \<and> is_str (ps ! 1))) then
            Inl (ValueError ''Input must contain either `int` or `str`'')
          else if is_str (ps ! 0) then
            (if is_datetime_index data_index then Inl (NameError ''data'')
             else Inl (ValueError ''If input ``period`` is string then input ``data`` must have index of type `DatetimeIndex`.''))
          else
            (case (int_of (ps ! 0), int_of (ps ! 1)) of
               (Some a, Some b) \<Rightarrow>
                 if b - a < 3 then Inl (ValueError ''``pre_period`` must span at least 3 time points'')
                 else Inr (a, b)
             | _ \<Rightarrow>
                 Inl (TypeError (''unsupported operand type(s) for -: '' @ quoted (type_name (ps ! 1))
                        @ '' and '' @ quoted (type_name (ps ! 0)))))
      | _ \<Rightarrow> Inl (ValueError ''Input ``period`` must be of type `list`.''))"

text \<open>
  \<open>_process_pre_post_data\<close> (lines 407--424). Line 419 of the source has a stray
  period after the message; the model reads the \<open>raise\<close> it spells. The slices
  \<open>data.iloc[a, b, :]\<close> give three indexers to a frame of two dimensions, for which
  pandas raises \<open>IndexingError\<close>.
\<close>

definition process_pre_post_data ::
    "dataframe \<Rightarrow> pyval \<Rightarrow> pyval \<Rightarrow> error + dataframe \<times> dataframe" where
  "process_pre_post_data data pre_period post_period =
     (case process_period pre_period (df_index data) of
        Inl e \<Rightarrow> Inl e
      | Inr pre \<Rightarrow>
          (case process_period post_period (df_index data) of
             Inl e \<Rightarrow> Inl e
           | Inr post \<Rightarrow>
               if snd pre > fst post then
                 Inl (ValueError ''Values in training data cannot be present in the post-intervention data. Please fix your pre_period value to cover at most one point less from when the intervention happened.'')
               else if snd post < fst post then
                 Inl (ValueError ''``post_period`` last number must be bigger than its first.'')
               else if snd pre < fst pre then
                 Inl (ValueError ''``pre_period`` last number must be bigger than its first'')
               else Inl (IndexingError ''Too many indexers'')))"

section \<open>Input data\<close>

text \<open>\<open>_format_input_data\<close> (lines 369--387). \<open>.values.all()\<close> ranges over every cell
  of the frame.\<close>

definition to_frame :: "data_arg \<Rightarrow> error + dataframe" where
  "to_frame data =
     (case data of
        Frame df \<Rightarrow> Inr df
      | Coercible df \<Rightarrow> Inr df
      | DataNone \<Rightarrow> Inr empty_frame
      | Uncoercible err \<Rightarrow> Inl (ValueError (''Input ``data`` is not valid. Cause of error: '' @ err)))"

definition format_input_data :: "data_arg \<Rightarrow> error + dataframe" where
  "format_input_data data =
     (case to_frame data of
        Inl e \<Rightarrow> Inl e
      | Inr df \<Rightarrow>
          if \<not> list_all (list_all isreal) (df_rows df) then
            Inl (ValueError ''Input ``data`` must contain only numeric values'')
          else if length (df_rows df) < 3 then
            Inl (ValueError ''Input data must have more than 3 points'')
          else if df_ncols df > 1 \<and> list_all (list_all isna) (df_rows df) then
            Inl (ValueError ''Input data cannot have NAN values'')
          else Inr df)"

section \<open>Models\<close>

text \<open>
  A model object as \<open>_process_input_model\<close> would inspect it: whether it is an instance
  of the class that \<open>UnobservedComponentsModel\<close> is meant to name, and its attributes
  \<open>level\<close>, \<open>exog\<close> and \<open>data\<close>, each \<open>None\<close> when the object has no such attribute
  (reading it raises \<open>AttributeError\<close>) and its value otherwise.
\<close>

record model_obj =
  is_ucm :: bool
  attr_level :: "pyval option"
  attr_exog :: "pyval option"
  attr_data :: "pyval option"

datatype model_arg = ModelNone | ModelObj model_obj

text \<open>
  The attribute tests of \<open>_process_input_model\<close> (lines 308--323), as they run on a
  model once line 304 is passed. A \<open>ValueError\<close> raised inside a \<open>try\<close> passes its
  \<open>except AttributeError\<close> clause.
\<close>

definition check_model_attributes :: "model_obj \<Rightarrow> error + model_obj" where
  "check_model_attributes m =
     (case attr_level m of
        None \<Rightarrow> Inl (ValueError ''Model must have attribute level'')
      | Some l \<Rightarrow>
          if \<not> truthy l then Inl (ValueError ''Model must have `level` attribute set.'')
          else
            (case attr_exog m of
               None \<Rightarrow> Inl (ValueError ''Model must have attribute exog'')
             | Some x \<Rightarrow>
                 if \<not> truthy x then Inl (ValueError ''Model must have `exog` attribute set.'')
                 else
                   (case attr_data m of
                      None \<Rightarrow> Inl (ValueError ''Model must have attribute exog'')
                    | Some d \<Rightarrow>
                        if \<not> truthy d then Inl (ValueError ''Model must have `data` attribute set.'')
                        else Inr m)))"

text \<open>
  \<open>_process_input_model\<close> (lines 304--323). Line 304 reads the name
  \<open>UnobservedComponentsModel\<close> before anything else.
\<close>

definition process_input_model :: "model_arg \<Rightarrow> error + model_arg" where
  "process_input_model model =
     (case lookup_global ''UnobservedComponentsModel'' of
        Inl e \<Rightarrow> Inl e
      | Inr _ \<Rightarrow>
          (case model of
             ModelNone \<Rightarrow>
               Inl (ValueError ''Input ``model`` must be of type ``UnobservedComponentsModel``'')
           | ModelObj m \<Rightarrow>
               if \<not> is_ucm m then
                 Inl (ValueError ''Input ``model`` must be of type ``UnobservedComponentsModel``'')
               else
                 (case check_model_attributes m of
                    Inl e \<Rightarrow> Inl e
                  | Inr m' \<Rightarrow> Inr (ModelObj m'))))"

text \<open>
  The call of lines 207--208 as it is written: the name of the callee and, in the order
  written, each keyword with the expression passed for it. The expressions are
  \<open>self.pre_data[:, 0].values\<close>, \<open>self.pre_data[:, 1:].values\<close> and a string
  literal.
\<close>

datatype arg_expr = PreDataColumn0 | PreDataColumnsFrom1 | StrLiteral string

definition default_model_call :: "string \<times> (string \<times> arg_expr) list" where
  "default_model_call =
     (''UnobservedComponentsModel'',
      [(''exog'', PreDataColumn0), (''level'', StrLiteral ''llevel''),
       (''endog'', PreDataColumnsFrom1)])"

datatype model_val = NoModel | UserModel model_obj | DefaultModel "(string \<times> pyval) list"

text \<open>The attributes of a \<open>CausalImpact\<close> object that \<open>BaseCausal.__init__\<close> and the
  \<open>model\<close> setter assign.\<close>

record causal_impact =
  data :: data_arg
  pre_period :: pyval
  post_period :: pyval
  pre_data :: dataframe
  post_data :: dataframe
  alpha :: pyval
  mu_sig :: "(real \<times> real) option"
  model :: model_val

text \<open>
  The value of an argument expression. \<open>pre_data\<close> is a \<open>DataFrame\<close>, and indexing a
  \<open>DataFrame\<close> with a tuple that holds a slice raises \<open>InvalidIndexError\<close>, whose text
  is the key.
\<close>

fun eval_arg :: "causal_impact \<Rightarrow> arg_expr \<Rightarrow> error + pyval" where
  "eval_arg self PreDataColumn0 = Inl (InvalidIndexError ''(slice(None, None, None), 0)'')"
| "eval_arg self PreDataColumnsFrom1 =
     Inl (InvalidIndexError ''(slice(None, None, None), slice(1, None, None))'')"
| "eval_arg self (StrLiteral s) = Inr (PyStr s)"

fun eval_kwargs :: "causal_impact \<Rightarrow> (string \<times> arg_expr) list \<Rightarrow> error + (string \<times> pyval) list" where
  "eval_kwargs self [] = Inr []"
| "eval_kwargs self ((k, e) # rest) =
     (case eval_arg self e of
        Inl err \<Rightarrow> Inl err
      | Inr v \<Rightarrow>
          (case eval_kwargs self rest of
             Inl err \<Rightarrow> Inl err
           | Inr vs \<Rightarrow> Inr ((k, v) # vs)))"

text \<open>
  \<open>_construct_default_model\<close> (lines 207--209). A call reads the name of the callee
  first and then evaluates the arguments in the order written; the model that the class
  would build is recorded as the keyword arguments it receives.
\<close>

definition construct_default_model :: "causal_impact \<Rightarrow> error + model_val" where
  "construct_default_model self =
     (case lookup_global (fst default_model_call) of
        Inl e \<Rightarrow> Inl e
      | Inr _ \<Rightarrow>
          (case eval_kwargs self (snd default_model_call) of
             Inl e \<Rightarrow> Inl e
           | Inr kws \<Rightarrow> Inr (DefaultModel kws)))"

text \<open>The setter of the \<open>model\<close> property (lines 170--175).\<close>

definition model_setter :: "causal_impact \<Rightarrow> model_arg \<Rightarrow> error + causal_impact" where
  "model_setter self v =
     (case v of
        ModelNone \<Rightarrow>
          (case construct_default_model self of
             Inl e \<Rightarrow> Inl e
           | Inr m \<Rightarrow> Inr (self\<lparr>model := m\<rparr>))
      | ModelObj m \<Rightarrow> Inr (self\<lparr>model := UserModel m\<rparr>))"

fun collect :: "'a option list \<Rightarrow> 'a list option" where
  "collect [] = Some []"
| "collect (None # _) = None"
| "collect (Some x # xs) = (case collect xs of None \<Rightarrow> None | Some ys \<Rightarrow> Some (x # ys))"

section \<open>Standardization\<close>

text \<open>
  \<open>standardize\<close> is imported from \<open>causalimpact.misc\<close>, which is not among the
  sources. The methods take it as a parameter: a function from a frame to the
  standardized frame and the pair \<open>(mu, sig)\<close> of per-column statistics it used.
\<close>

type_synonym standardizer = "dataframe \<Rightarrow> error + dataframe \<times> (real list \<times> real list)"

text \<open>
  \<open>_standardize_pre_post_data\<close> (lines 182--185). Line 183 reads \<open>normed_data\<close>, a
  name bound nowhere (line 182 binds \<open>normed_pre_data\<close>), so the method stops there.
\<close>

definition standardize_pre_post_data :: "standardizer \<Rightarrow> causal_impact \<Rightarrow> error + causal_impact" where
  "standardize_pre_post_data standardize self =
     (case standardize (pre_data self) of
        Inl e \<Rightarrow> Inl e
      | Inr (normed_pre_data, (mu, sig)) \<Rightarrow> Inl (NameError ''normed_data''))"

text \<open>
  \<open>_process_posterior_inferences\<close> (lines 196--197) binds four locals and returns
  \<open>None\<close>. \<open>posterior_locals\<close> is the local environment at the end of the body.
\<close>

record inference_locals =
  normed_pre_data :: dataframe
  mu :: "real list"
  sig :: "real list"
  normed_post_data :: dataframe

definition posterior_locals :: "standardizer \<Rightarrow> causal_impact \<Rightarrow> error + inference_locals" where
  "posterior_locals standardize self =
     (case standardize (pre_data self) of
        Inl e \<Rightarrow> Inl e
      | Inr (npre, (m, s)) \<Rightarrow>
          (case standardize (post_data self) of
             Inl e \<Rightarrow> Inl e
           | Inr (npost, _) \<Rightarrow>
               Inr \<lparr>normed_pre_data = npre, mu = m, sig = s, normed_post_data = npost\<rparr>))"

definition process_posterior_inferences :: "standardizer \<Rightarrow> causal_impact \<Rightarrow> error + pyval" where
  "process_posterior_inferences standardize self =
     (case posterior_locals standardize self of Inl e \<Rightarrow> Inl e | Inr _ \<Rightarrow> Inr PyNone)"

text \<open>
  Modelled from the spec: \<open>standardize\<close> of \<open>causalimpact.misc\<close> is missing from the
  sources. Section 4.3: the fit computes the mean and the standard deviation of each
  column; the transform is \<open>(data - mu) / sigma\<close> column by column; a column with
  \<open>sigma = 0\<close> fails with \<open>DegenerateColumn\<close>. The data model has every value
  numeric, so a frame with another cell is refused. The standard deviation is the
  population one.
\<close>

fun num_of :: "cell \<Rightarrow> real option" where
  "num_of (Num x) = Some x"
| "num_of _ = None"

definition numeric_rows :: "dataframe \<Rightarrow> real list list option" where
  "numeric_rows df = collect (map (\<lambda>r. collect (map num_of r)) (df_rows df))"

definition col_mean :: "real list \<Rightarrow> real" where
  "col_mean xs = sum_list xs / real (length xs)"

definition col_std :: "real list \<Rightarrow> real" where
  "col_std xs = sqrt (sum_list (map (\<lambda>x. (x - col_mean xs)\<^sup>2) xs) / real (length xs))"

fun column :: "real list list \<Rightarrow> nat \<Rightarrow> real list" where
  "column rows k = concat (map (\<lambda>r. take 1 (drop k r)) rows)"

fun apply_row :: "real list \<Rightarrow> real list \<Rightarrow> real list \<Rightarrow> cell list" where
  "apply_row (x # xs) (m # ms) (s # ss) = Num ((x - m) / s) # apply_row xs ms ss"
| "apply_row _ _ _ = []"

definition standardize_spec :: standardizer where
  "standardize_spec df =
     (case numeric_rows df of
        None \<Rightarrow> Inl (ValueError ''NonNumericData'')
      | Some rows \<Rightarrow>
          (let cols = map (column rows) [0 ..< df_ncols df];
               ms = map col_mean cols;
               ss = map col_std cols
           in if list_ex (\<lambda>s. s = 0) ss then Inl (ValueError ''DegenerateColumn'')
              else Inr (df\<lparr>df_rows := map (\<lambda>r. apply_row r ms ss) rows\<rparr>, (ms, ss))))"

section \<open>Checking the constructor's arguments\<close>

text \<open>
  \<open>_check_input_data\<close> (lines 240--260). \<open>locals()\<close> holds the parameters in the order
  of the signature; \<open>input_args\<close> keeps, for each, whether its value is \<open>None\<close>
  (\<open>self\<close> and the dictionary \<open>kwargs\<close> never are). The methods
  \<open>_process_causal_kwargs\<close> and \<open>_process_causal_input_model\<close> are not defined in this
  file (the base class \<open>Inferences\<close> is not among the sources); they are parameters.
  An object other than \<open>None\<close> counts as true in \<open>if model\<close>.
\<close>

type_synonym kwargs = "(string \<times> pyval) list"

definition input_args ::
    "data_arg \<Rightarrow> pyval \<Rightarrow> pyval \<Rightarrow> model_arg \<Rightarrow> pyval \<Rightarrow> (string \<times> bool) list" where
  "input_args d pre post m a =
     [(''self'', False), (''data'', d = DataNone), (''pre_period'', pre = PyNone),
      (''post_period'', post = PyNone), (''model'', m = ModelNone), (''alpha'', a = PyNone),
      (''kwargs'', False)]"

definition none_args ::
    "data_arg \<Rightarrow> pyval \<Rightarrow> pyval \<Rightarrow> model_arg \<Rightarrow> pyval \<Rightarrow> string list" where
  "none_args d pre post m a =
     map fst (filter snd (filter (\<lambda>kv. fst kv \<noteq> ''model'') (input_args d pre post m a)))"

fun join :: "string \<Rightarrow> string list \<Rightarrow> string" where
  "join sep [] = []"
| "join sep [x] = x"
| "join sep (x # y # ys) = x @ sep @ join sep (y # ys)"

record checked_input =
  ci_data :: data_arg
  ci_pre_period :: pyval
  ci_post_period :: pyval
  ci_pre_data :: dataframe
  ci_post_data :: dataframe
  ci_model :: model_arg
  ci_alpha :: pyval
  ci_model_args :: kwargs

definition check_input_data ::
    "(kwargs \<Rightarrow> error + kwargs) \<Rightarrow> (model_arg \<Rightarrow> error + model_arg) \<Rightarrow>
     data_arg \<Rightarrow> pyval \<Rightarrow> pyval \<Rightarrow> model_arg \<Rightarrow> pyval \<Rightarrow> kwargs \<Rightarrow> error + checked_input" where
  "check_input_data process_causal_kwargs process_causal_input_model d pre post m a kw =
     (if none_args d pre post m a \<noteq> [] then
        Inl (ValueError (join '', '' (none_args d pre post m a) @ '' cannot be empty''))
      else
        (case format_input_data d of
           Inl e \<Rightarrow> Inl e
         | Inr processed_data \<Rightarrow>
             (case process_pre_post_data processed_data pre post of
                Inl e \<Rightarrow> Inl e
              | Inr (pre_d, post_d) \<Rightarrow>
                  (case process_causal_kwargs kw of
                     Inl e \<Rightarrow> Inl e
                   | Inr model_args \<Rightarrow>
                       (case (if m \<noteq> ModelNone then process_causal_input_model m else Inr m) of
                          Inl e \<Rightarrow> Inl e
                        | Inr m' \<Rightarrow>
                            Inr \<lparr>ci_data = d, ci_pre_period = pre, ci_post_period = post,
                                 ci_pre_data = pre_d, ci_post_data = post_d, ci_model = m',
                                 ci_alpha = a, ci_model_args = model_args\<rparr>)))))"

section \<open>Results\<close>

subsection \<open>Auxiliary facts\<close>

lemma none_args_eq:
  "none_args d pre post m a =
     map fst (filter snd [(''data'', d = DataNone), (''pre_period'', pre = PyNone),
                          (''post_period'', post = PyNone), (''alpha'', a = PyNone)])"
  by (simp add: none_args_def input_args_def)

lemma col_std_two: "col_std [a, b] = \<bar>a - b\<bar> / 2"
proof -
  have "(a - (a + b) / 2)\<^sup>2 + (b - (a + b) / 2)\<^sup>2 = 2 * ((a - b) / 2)\<^sup>2"
    by (simp add: power2_eq_square field_simps)
  then have "col_std [a, b] = sqrt (((a - b) / 2)\<^sup>2)"
    by (simp add: col_std_def col_mean_def)
  then show ?thesis by (simp add: real_sqrt_abs)
qed

text \<open>
  An object that is not true is one of six values, and with them no period passes every
  test of \<open>_process_period\<close>: the method returns for no argument at all, and so do
  \<open>_process_pre_post_data\<close> and \<open>_check_input_data\<close>.
\<close>

lemma falsy_cases:
  "\<not> truthy v \<Longrightarrow>
     v = PyNone \<or> v = PyBool False \<or> v = PyInt 0 \<or> v = PyFloat (Fin 0) \<or> v = PyStr [] \<or> v = PyList []"
  by (cases v) auto

lemma process_period_never_returns: "\<exists>e. process_period period idx = Inl e"
proof (cases period)
  case (PyList ps)
  show ?thesis
  proof (cases "length ps = 2 \<and> filter truthy ps = []")
    case False
    then show ?thesis using PyList by (auto simp add: process_period_def)
  next
    case True
    then obtain x y where ps: "ps = [x, y]"
      by (cases ps; cases "tl ps"; auto)
    with True have "\<not> truthy x" "\<not> truthy y"
      by (auto split: if_splits)
    then show ?thesis
      using falsy_cases [of x] falsy_cases [of y] PyList ps
      by (auto simp add: process_period_def)
  qed
qed (simp_all add: process_period_def)

lemma process_pre_post_data_never_returns: "\<exists>e. process_pre_post_data d pre post = Inl e"
  by (simp add: process_pre_post_data_def split: sum.splits)

lemma check_input_data_never_returns: "\<exists>e. check_input_data pk pm d pre post m a kw = Inl e"
proof -
  obtain e where "process_pre_post_data (projr (format_input_data d)) pre post = Inl e"
    using process_pre_post_data_never_returns by blast
  then show ?thesis
    by (cases "format_input_data d") (simp_all add: check_input_data_def)
qed

text \<open>
  \<open>_convert_str_period_to_int\<close> on its own gives what the lookup returns for the two
  labels, and names the first label that the lookup does not find.
\<close>

lemma convert_str_period_to_int_found:
  "get_loc a = Some i \<Longrightarrow> get_loc b = Some j \<Longrightarrow>
     convert_str_period_to_int [a, b] get_loc = Inr [i, j]"
  by simp

lemma convert_str_period_to_int_absent:
  "get_loc a = Some i \<Longrightarrow> get_loc b = None \<Longrightarrow>
     convert_str_period_to_int [a, b] get_loc = Inl (ValueError (b @ '' is not preset in data index''))"
  by simp

text \<open>
  \<open>_process_alpha\<close> on every value: a value that is not a float is refused for its
  type; a float below 0 or above 1, an infinity included, is refused for its range; a
  float from 0.0 to 1.0, both ends included, passes, and so does NaN, for which both
  comparisons are false.
\<close>

lemma process_alpha_cases:
  "process_alpha v =
     (if \<not> is_float v then Inl (ValueError ''``alpha`` must be of type `float`.'')
      else if v = PyFloat NaN \<or> (\<exists>x. v = PyFloat (Fin x) \<and> 0 \<le> x \<and> x \<le> 1) then Inr PyNone
      else Inl (ValueError ''``alpha`` must range between 0 (zero) and 1 (one) inclusive.''))"
proof (cases v)
  case (PyFloat f)
  then show ?thesis by (cases f) (auto simp add: process_alpha_def)
qed (simp_all add: process_alpha_def)

text \<open>
  The test for \<open>None\<close> arguments of \<open>_check_input_data\<close>: the names collected are, in
  this order, those of \<open>data\<close>, \<open>pre_period\<close>, \<open>post_period\<close> and \<open>alpha\<close> whose
  value is \<open>None\<close>; the model is not among them; and when one is collected the result
  is the \<open>ValueError\<close> whose message joins the names, whatever the data and the periods
  are.
\<close>

lemma none_check_lists_none_arguments:
  "none_args d pre post m a =
     map fst (filter snd [(''data'', d = DataNone), (''pre_period'', pre = PyNone),
                          (''post_period'', post = PyNone), (''alpha'', a = PyNone)])
   \<and> (none_args d pre post m a = []) = (d \<noteq> DataNone \<and> pre \<noteq> PyNone \<and> post \<noteq> PyNone \<and> a \<noteq> PyNone)
   \<and> (none_args d pre post m a \<noteq> [] \<longrightarrow>
        check_input_data pk pm d pre post m a kw =
          Inl (ValueError (join '', '' (none_args d pre post m a) @ '' cannot be empty'')))"
  by (simp add: none_args_eq check_input_data_def)

lemma none_check_example:
  "check_input_data pk pm DataNone (PyList [PyInt 0, PyInt 70]) PyNone ModelNone PyNone kw
     = Inl (ValueError ''data, post_period, alpha cannot be empty'')"
  by (simp add: none_args_eq check_input_data_def)

subsection \<open>Period resolution\<close>

text \<open>
  C1. For an integer period \<open>[a, b]\<close> with \<open>b - a \<ge> 3\<close> the source should return the
  pair unchanged. It does not: \<open>[0, 70]\<close> and \<open>[70, 100]\<close> are refused as holding
  \<open>None\<close>, because the test collects the elements that are true; and no period of two
  integers is resolved at all.
\<close>

theorem process_period_int_refused:
  "process_period (PyList [PyInt 0, PyInt 70]) (RangeIndex 100)
     = Inl (ValueError ''Input period cannot have `None` values'')
   \<and> process_period (PyList [PyInt 70, PyInt 100]) (RangeIndex 100)
     = Inl (ValueError ''Input period cannot have `None` values'')
   \<and> (\<forall>a b idx. \<exists>e. process_period (PyList [PyInt a, PyInt b]) idx = Inl e)"
  by (simp add: process_period_def)

text \<open>
  C5. The overlapping pair \<open>[0, 50]\<close>, \<open>[40, 70]\<close> should fail with the overlap
  message, and the pair \<open>[0, 70]\<close>, \<open>[70, 100]\<close> should pass the overlap test. On
  every frame both stop earlier, in the resolution of the pre-period, with the message
  about \<open>None\<close> values: the three order tests of \<open>_process_pre_post_data\<close> are not
  reached.
\<close>

theorem overlap_test_not_reached:
  "process_pre_post_data d (PyList [PyInt 0, PyInt 50]) (PyList [PyInt 40, PyInt 70])
     = Inl (ValueError ''Input period cannot have `None` values'')
   \<and> process_pre_post_data d (PyList [PyInt 0, PyInt 70]) (PyList [PyInt 70, PyInt 100])
     = Inl (ValueError ''Input period cannot have `None` values'')"
  by (simp add: process_pre_post_data_def process_period_def)

text \<open>
  C6. A period of two date labels on a date index should resolve to the offsets of the
  labels, and an absent label should be reported by name. Both a present and an absent
  label are refused as \<open>None\<close> values before any lookup, and no period of two strings
  is resolved at all.
\<close>

theorem label_period_refused:
  "process_period (PyList [PyStr ''2018-01-01'', PyStr ''2018-03-11''])
       (DatetimeIndex [''2018-01-01'', ''2018-01-02'', ''2018-03-11''])
     = Inl (ValueError ''Input period cannot have `None` values'')
   \<and> process_period (PyList [PyStr ''2018-01-01'', PyStr ''2019-12-31''])
       (DatetimeIndex [''2018-01-01'', ''2018-01-02'', ''2018-03-11''])
     = Inl (ValueError ''Input period cannot have `None` values'')
   \<and> (\<forall>s t idx. \<exists>e. process_period (PyList [PyStr s, PyStr t]) idx = Inl e)"
  by (simp add: process_period_def)

text \<open>
  C8. A period of one integer offset and one date label, a label being a string that is
  not empty, is refused with a \<open>ValueError\<close>, in either order; a string followed by an
  integer is refused with a \<open>ValueError\<close> whatever the string; and a period whose two
  elements are neither two integers nor two strings is never accepted. (The refusal of
  an offset with a label comes from the test for \<open>None\<close> values; the integer 0
  followed by the empty string passes that test and the kind test, which reads
  \<open>period[1]\<close> twice, and ends in the \<open>TypeError\<close> of the subtraction.)
\<close>

theorem mixed_period_rejected:
  "(s \<noteq> [] \<longrightarrow>
      process_period (PyList [PyInt i, PyStr s]) idx
        = Inl (ValueError ''Input period cannot have `None` values'')
      \<and> process_period (PyList [PyStr s, PyInt i]) idx
        = Inl (ValueError ''Input period cannot have `None` values''))
   \<and> (\<exists>msg. process_period (PyList [PyStr t, PyInt i]) idx = Inl (ValueError msg))
   \<and> (\<not> ((is_int x \<and> is_int y) \<or> (is_str x \<and> is_str y)) \<longrightarrow>
        (\<exists>e. process_period (PyList [x, y]) idx = Inl e))"
proof -
  have labelled: "s \<noteq> [] \<longrightarrow>
      process_period (PyList [PyInt i, PyStr s]) idx
        = Inl (ValueError ''Input period cannot have `None` values'')
      \<and> process_period (PyList [PyStr s, PyInt i]) idx
        = Inl (ValueError ''Input period cannot have `None` values'')"
    by (simp add: process_period_def)
  have reversed: "\<exists>msg. process_period (PyList [PyStr t, PyInt i]) idx = Inl (ValueError msg)"
    by (simp add: process_period_def)
  have never: "\<exists>e. process_period (PyList [x, y]) idx = Inl e"
    by (rule process_period_never_returns)
  from labelled reversed never show ?thesis by blast
qed

text \<open>
  The statement above at the offset 5 and the label 2018-01-01, on a date index.
\<close>

theorem mixed_period_rejected_witness:
  "''2018-01-01'' \<noteq> []
   \<and> process_period (PyList [PyInt 5, PyStr ''2018-01-01'']) (DatetimeIndex [''2018-01-01''])
       = Inl (ValueError ''Input period cannot have `None` values'')
   \<and> process_period (PyList [PyStr ''2018-01-01'', PyInt 5]) (DatetimeIndex [''2018-01-01''])
       = Inl (ValueError ''Input period cannot have `None` values'')
   \<and> \<not> ((is_int (PyInt 5) \<and> is_int (PyStr ''2018-01-01''))
         \<or> (is_str (PyInt 5) \<and> is_str (PyStr ''2018-01-01'')))
   \<and> (\<exists>e. process_period (PyList [PyInt 5, PyStr ''2018-01-01'']) (DatetimeIndex [''2018-01-01''])
         = Inl e)"
proof -
  note t = mixed_period_rejected
    [where s = "''2018-01-01''" and i = 5 and t = "''2018-01-01''"
       and x = "PyInt 5" and y = "PyStr ''2018-01-01''"
       and idx = "DatetimeIndex [''2018-01-01'']"]
  have nonempty: "''2018-01-01'' \<noteq> []" by simp
  have mixed: "\<not> ((is_int (PyInt 5) \<and> is_int (PyStr ''2018-01-01''))
         \<or> (is_str (PyInt 5) \<and> is_str (PyStr ''2018-01-01'')))" by simp
  from t nonempty mixed show ?thesis by blast
qed

subsection \<open>Default and supplied models\<close>

text \<open>
  C2. The default model should be built with column 0 of the pre-period data as its
  endogenous series and the columns from 1 on as its exogenous regressors. No default
  model is built: for every object the method stops at the name
  \<open>UnobservedComponentsModel\<close>, which \<open>main.py\<close> binds nowhere. And the call as it is
  written passes the two the other way round: column 0 for the keyword \<open>exog\<close>, the
  columns from 1 on for the keyword \<open>endog\<close>.
\<close>

theorem construct_default_model_fails:
  "construct_default_model self = Inl (NameError ''UnobservedComponentsModel'')
   \<and> map_of (snd default_model_call) ''exog'' = Some PreDataColumn0
   \<and> map_of (snd default_model_call) ''endog'' = Some PreDataColumnsFrom1"
  by (simp add: construct_default_model_def default_model_call_def lookup_global_def
      module_globals_def)

text \<open>
  C9. A model that has its level and its regressors and lacks only the \<open>data\<close>
  attribute should be reported as lacking \<open>data\<close>. For every argument the method stops
  at the unbound name of line 304, so no missing capability is reported at all; and the
  attribute tests that follow, run on such a model, name \<open>exog\<close>.
\<close>

theorem missing_data_not_reported:
  "process_input_model mdl = Inl (NameError ''UnobservedComponentsModel'')
   \<and> process_input_model (ModelObj \<lparr>is_ucm = True, attr_level = Some (PyStr ''llevel''),
         attr_exog = Some (PyList [PyFloat (Fin 1)]), attr_data = None\<rparr>)
       = Inl (NameError ''UnobservedComponentsModel'')
   \<and> check_model_attributes \<lparr>is_ucm = True, attr_level = Some (PyStr ''llevel''),
         attr_exog = Some (PyList [PyFloat (Fin 1)]), attr_data = None\<rparr>
       = Inl (ValueError ''Model must have attribute exog'')"
  by (simp add: process_input_model_def check_model_attributes_def lookup_global_def
      module_globals_def)

subsection \<open>Significance level\<close>

text \<open>
  C3. Constructing an analysis with \<open>alpha\<close> equal to 0, 1, -0.1 or 1.5 should fail for
  the value of \<open>alpha\<close>, and with 0.05 it should pass the checks. \<open>_check_input_data\<close>
  never calls \<open>_process_alpha\<close>: on a series of 100 points with one covariate and the
  periods \<open>[0, 70]\<close> and \<open>[70, 100]\<close> the five values give the same result, the
  \<open>ValueError\<close> of the period; and any two floats give the same result on every
  input. \<open>_process_alpha\<close> itself, which nothing calls, refuses 0, 1, -0.1 and 1.5 and
  passes 0.05.
\<close>

theorem alpha_never_checked:
  "map (\<lambda>a. check_input_data pk pm
              (Frame \<lparr>df_index = RangeIndex 100, df_ncols = 2,
                      df_rows = replicate 100 [Num 1, Num 2]\<rparr>)
              (PyList [PyInt 0, PyInt 70]) (PyList [PyInt 70, PyInt 100]) ModelNone a kw)
       [PyInt 0, PyInt 1, PyFloat (Fin (- 1 / 10)), PyFloat (Fin (3 / 2)), PyFloat (Fin (5 / 100))]
     = replicate 5 (Inl (ValueError ''Input period cannot have `None` values''))
   \<and> check_input_data pk pm d pre post m (PyFloat f) kw
       = check_input_data pk pm d pre post m (PyFloat g) kw
   \<and> map process_alpha
       [PyInt 0, PyInt 1, PyFloat (Fin (- 1 / 10)), PyFloat (Fin (3 / 2)), PyFloat (Fin (5 / 100))]
     = [Inl (ValueError ''``alpha`` must be of type `float`.''),
        Inl (ValueError ''``alpha`` must be of type `float`.''),
        Inl (ValueError ''``alpha`` must range between 0 (zero) and 1 (one) inclusive.''),
        Inl (ValueError ''``alpha`` must range between 0 (zero) and 1 (one) inclusive.''),
        Inr PyNone]"
proof -
  let ?d = "Frame \<lparr>df_index = RangeIndex 100, df_ncols = 2,
                    df_rows = replicate 100 [Num 1, Num 2]\<rparr>"
  have fmt: "format_input_data ?d
      = Inr \<lparr>df_index = RangeIndex 100, df_ncols = 2, df_rows = replicate 100 [Num 1, Num 2]\<rparr>"
    by (simp add: format_input_data_def to_frame_def list_all_iff)
  have run: "a \<noteq> PyNone \<Longrightarrow>
      check_input_data pk pm ?d (PyList [PyInt 0, PyInt 70]) (PyList [PyInt 70, PyInt 100])
        ModelNone a kw = Inl (ValueError ''Input period cannot have `None` values'')" for a
    by (simp add: check_input_data_def none_args_eq fmt process_pre_post_data_def
        process_period_def)
  have five_copies: "replicate 5 e = [e, e, e, e, e]" for e :: "error + checked_input"
    by (simp add: numeral_eq_Suc)
  have five: "map (\<lambda>a. check_input_data pk pm ?d
              (PyList [PyInt 0, PyInt 70]) (PyList [PyInt 70, PyInt 100]) ModelNone a kw)
       [PyInt 0, PyInt 1, PyFloat (Fin (- 1 / 10)), PyFloat (Fin (3 / 2)), PyFloat (Fin (5 / 100))]
     = replicate 5 (Inl (ValueError ''Input period cannot have `None` values''))"
    by (simp add: run five_copies)
  have pp: "\<exists>e. process_pre_post_data x pre post = Inl e" for x
    by (rule process_pre_post_data_never_returns)
  have same: "check_input_data pk pm d pre post m (PyFloat f) kw
       = check_input_data pk pm d pre post m (PyFloat g) kw"
  proof (cases "format_input_data d")
    case (Inl e)
    then show ?thesis by (simp add: check_input_data_def none_args_eq)
  next
    case (Inr x)
    obtain e where "process_pre_post_data x pre post = Inl e" using pp by blast
    with Inr show ?thesis by (simp add: check_input_data_def none_args_eq)
  qed
  have alone: "map process_alpha
       [PyInt 0, PyInt 1, PyFloat (Fin (- 1 / 10)), PyFloat (Fin (3 / 2)), PyFloat (Fin (5 / 100))]
     = [Inl (ValueError ''``alpha`` must be of type `float`.''),
        Inl (ValueError ''``alpha`` must be of type `float`.''),
        Inl (ValueError ''``alpha`` must range between 0 (zero) and 1 (one) inclusive.''),
        Inl (ValueError ''``alpha`` must range between 0 (zero) and 1 (one) inclusive.''),
        Inr PyNone]"
    by (simp add: process_alpha_def)
  from five same alone show ?thesis by blast
qed

subsection \<open>Standardization\<close>

text \<open>
  C4. Every standardization step should rescale the post-period data with the mean and
  the standard deviation of the pre-period data. With pre-period response 1, 3 (mean 2,
  deviation 1) and post-period response 4, 6, \<open>_process_posterior_inferences\<close>
  standardizes the post-period data by its own mean 5 and deviation 1, giving -1, 1,
  where the pre-period parameters give 2, 4; and \<open>_standardize_pre_post_data\<close> stops
  at the unbound name before it rescales anything.
\<close>

theorem posterior_inferences_standardizes_post_by_itself:
  "posterior_locals standardize_spec
     (self\<lparr>pre_data := \<lparr>df_index = RangeIndex 2, df_ncols = 1, df_rows = [[Num 1], [Num 3]]\<rparr>,
            post_data := \<lparr>df_index = RangeIndex 2, df_ncols = 1, df_rows = [[Num 4], [Num 6]]\<rparr>\<rparr>)
   = Inr \<lparr>normed_pre_data = \<lparr>df_index = RangeIndex 2, df_ncols = 1, df_rows = [[Num (- 1)], [Num 1]]\<rparr>,
          mu = [2], sig = [1],
          normed_post_data = \<lparr>df_index = RangeIndex 2, df_ncols = 1, df_rows = [[Num (- 1)], [Num 1]]\<rparr>\<rparr>
   \<and> map (\<lambda>r. apply_row r [2] [1]) [[4], [6]] = [[Num 2], [Num 4]]
   \<and> standardize_pre_post_data standardize_spec
     (self\<lparr>pre_data := \<lparr>df_index = RangeIndex 2, df_ncols = 1, df_rows = [[Num 1], [Num 3]]\<rparr>,
            post_data := \<lparr>df_index = RangeIndex 2, df_ncols = 1, df_rows = [[Num 4], [Num 6]]\<rparr>\<rparr>)
   = Inl (NameError ''normed_data'')"
  by (simp add: posterior_locals_def standardize_pre_post_data_def standardize_spec_def
      numeric_rows_def col_std_two col_mean_def)

subsection \<open>Input data and arguments\<close>

text \<open>
  C7. A frame with a covariate column that is entirely missing should be refused. The
  test asks whether every cell of the frame is missing, so a frame with response 1, 2, 3
  and a covariate of three missing values is returned as valid.
\<close>

theorem all_missing_covariate_accepted:
  "format_input_data (Frame \<lparr>df_index = RangeIndex 3, df_ncols = 2,
       df_rows = [[Num 1, Missing], [Num 2, Missing], [Num 3, Missing]]\<rparr>)
   = Inr \<lparr>df_index = RangeIndex 3, df_ncols = 2,
       df_rows = [[Num 1, Missing], [Num 2, Missing], [Num 3, Missing]]\<rparr>"
  by (simp add: format_input_data_def to_frame_def)

text \<open>
  C10. A call with no model and every other argument given should be accepted by the
  input check, and the setter should then build the default model. On a series of 100
  points with one covariate, the periods \<open>[0, 70]\<close> and \<open>[70, 100]\<close>, no model and
  \<open>alpha = 0.05\<close>, \<open>_check_input_data\<close> ends in the \<open>ValueError\<close> of the period, as it
  does in an error for every argument; and the setter of \<open>model\<close>, given \<open>None\<close>, ends
  in \<open>NameError\<close> on every object. (The test for \<open>None\<close> arguments itself leaves the
  model out and names the others, see \<open>none_check_lists_none_arguments\<close>.)
\<close>

theorem none_model_not_accepted:
  "check_input_data pk pm
       (Frame \<lparr>df_index = RangeIndex 100, df_ncols = 2, df_rows = replicate 100 [Num 1, Num 2]\<rparr>)
       (PyList [PyInt 0, PyInt 70]) (PyList [PyInt 70, PyInt 100]) ModelNone
       (PyFloat (Fin (5 / 100))) kw
     = Inl (ValueError ''Input period cannot have `None` values'')
   \<and> (\<exists>e. check_input_data pk pm d pre post ModelNone a kw = Inl e)
   \<and> model_setter self ModelNone = Inl (NameError ''UnobservedComponentsModel'')"
proof -
  let ?d = "Frame \<lparr>df_index = RangeIndex 100, df_ncols = 2,
                    df_rows = replicate 100 [Num 1, Num 2]\<rparr>"
  have fmt: "format_input_data ?d
      = Inr \<lparr>df_index = RangeIndex 100, df_ncols = 2, df_rows = replicate 100 [Num 1, Num 2]\<rparr>"
    by (simp add: format_input_data_def to_frame_def list_all_iff)
  have run: "check_input_data pk pm ?d (PyList [PyInt 0, PyInt 70]) (PyList [PyInt 70, PyInt 100])
        ModelNone (PyFloat (Fin (5 / 100))) kw
      = Inl (ValueError ''Input period cannot have `None` values'')"
    by (simp add: check_input_data_def none_args_eq fmt process_pre_post_data_def
        process_period_def)
  have never: "\<exists>e. check_input_data pk pm d pre post ModelNone a kw = Inl e"
    by (rule check_input_data_never_returns)
  have setter: "model_setter self ModelNone = Inl (NameError ''UnobservedComponentsModel'')"
    by (simp add: model_setter_def construct_default_model_def default_model_call_def
        lookup_global_def module_globals_def)
  from run never setter show ?thesis by blast
qed

end
